theory Spec2Isabelle
  imports Complex_Main
begin

section \<open>Stock correlation heatmap: the company catalogue and the symbol resolver\<close>

text \<open>
  The dictionary literal \<open>company_symbols\<close> of \<open>fetch_stock_data\<close>, in the order of the
  source, and the list \<open>available_companies\<close> of \<open>main\<close>. A Python \<open>str\<close> is modelled as
  a \<open>string\<close>; every catalogue name and ticker is ASCII.
\<close>

definition company_symbols :: "(string \<times> string) list" where
  "company_symbols =
     [(''Apple'', ''AAPL''),
      (''Microsoft'', ''MSFT''),
      (''Amazon'', ''AMZN''),
      (''Alphabet'', ''GOOGL''),
      (''Meta'', ''META''),
      (''Tesla'', ''TSLA''),
      (''Nvidia'', ''NVDA''),
      (''JPMorgan Chase'', ''JPM''),
      (''Walmart'', ''WMT''),
      (''ExxonMobil'', ''XOM''),
      (''Johnson & Johnson'', ''JNJ''),
      (''Visa'', ''V''),
      (''Mastercard'', ''MA''),
      (''Intel'', ''INTC''),
      (''Coca-Cola'', ''KO'')]"

definition available_companies :: "string list" where
  "available_companies =
     [''Apple'', ''Microsoft'', ''Amazon'', ''Alphabet'', ''Meta'',
      ''Tesla'', ''Nvidia'', ''JPMorgan Chase'', ''Walmart'', ''ExxonMobil'',
      ''Johnson & Johnson'', ''Visa'', ''Mastercard'', ''Intel'', ''Coca-Cola'']"

text \<open>\<open>company_symbols.get(company, company)\<close>: the ticker of a known name, the argument itself otherwise.\<close>

definition resolve :: "string \<Rightarrow> string" where
  "resolve company = (case map_of company_symbols company of Some s \<Rightarrow> s | None \<Rightarrow> company)"

text \<open>\<open>symbols = [company_symbols.get(company, company) for company in companies]\<close>\<close>

definition symbols :: "string list \<Rightarrow> string list" where
  "symbols companies = map resolve companies"

section \<open>Floating-point values, idealised\<close>

text \<open>
  A cell of a pandas table is a float64. The model keeps its four kinds of value and does
  the arithmetic of the finite ones in exact real numbers: rounding, overflow and the sign
  of zero are not modelled. \<open>NaN\<close> is pandas' missing value.
\<close>

datatype fval = Fin real | PInf | NInf | NaN

fun isfinite :: "fval \<Rightarrow> bool" where
  "isfinite (Fin _) = True"
| "isfinite _ = False"

fun fsub :: "fval \<Rightarrow> fval \<Rightarrow> fval" where
  "fsub NaN _ = NaN"
| "fsub _ NaN = NaN"
| "fsub (Fin a) (Fin b) = Fin (a - b)"
| "fsub (Fin _) PInf = NInf"
| "fsub (Fin _) NInf = PInf"
| "fsub PInf PInf = NaN"
| "fsub PInf _ = PInf"
| "fsub NInf NInf = NaN"
| "fsub NInf _ = NInf"

fun fdiv :: "fval \<Rightarrow> fval \<Rightarrow> fval" where
  "fdiv NaN _ = NaN"
| "fdiv _ NaN = NaN"
| "fdiv (Fin a) (Fin b) =
     (if b \<noteq> 0 then Fin (a / b)
      else if 0 < a then PInf else if a < 0 then NInf else NaN)"
| "fdiv (Fin _) _ = Fin 0"
| "fdiv PInf (Fin b) = (if 0 \<le> b then PInf else NInf)"
| "fdiv NInf (Fin b) = (if 0 \<le> b then NInf else PInf)"
| "fdiv _ _ = NaN"

text \<open>The comparison \<open><\<close> of floats: false whenever an operand is \<open>NaN\<close>.\<close>

fun fless :: "fval \<Rightarrow> fval \<Rightarrow> bool" where
  "fless NaN _ = False"
| "fless _ NaN = False"
| "fless (Fin a) (Fin b) = (a < b)"
| "fless _ NInf = False"
| "fless PInf _ = False"
| "fless _ _ = True"

section \<open>Tables\<close>

text \<open>
  A \<open>Series\<close> is the list of its values, a row being its position (the rows of the price
  table are the trading days in ascending order). A \<open>DataFrame\<close> is the list of its
  labelled columns, in column order.
\<close>

type_synonym series = "fval list"

type_synonym frame = "(string \<times> series) list"

section \<open>The returns: \<open>pct_change\<close>\<close>

text \<open>
  \<open>Series.pct_change()\<close> with its defaults (\<open>periods=1\<close>, \<open>fill_method='pad'\<close>): missing
  values are filled forward from the last value present, then each row is divided by the
  row before it and 1 is subtracted; row 0 has no row before it and is \<open>NaN\<close>.
\<close>

fun ffill_from :: "fval \<Rightarrow> series \<Rightarrow> series" where
  "ffill_from seen [] = []"
| "ffill_from seen (x # xs) =
     (let y = (if x = NaN then seen else x) in y # ffill_from y xs)"

definition ffill :: "series \<Rightarrow> series" where
  "ffill xs = ffill_from NaN xs"

definition pct_change :: "series \<Rightarrow> series" where
  "pct_change xs =
     (let filled = ffill xs in
      case filled of
        [] \<Rightarrow> []
      | _ # later \<Rightarrow> NaN # map (\<lambda>(cur, prev). fsub (fdiv cur prev) (Fin 1)) (zip later filled))"

text \<open>\<open>DataFrame.pct_change()\<close> works column by column.\<close>

definition pct_change_frame :: "frame \<Rightarrow> frame" where
  "pct_change_frame data = map (\<lambda>(label, xs). (label, pct_change xs)) data"

section \<open>The correlation matrix: \<open>corr\<close>\<close>

text \<open>
  \<open>DataFrame.corr()\<close> with its defaults (\<open>method='pearson'\<close>, \<open>min_periods=1\<close>). For each
  pair of columns the rows where both values are finite are kept (\<open>complete_rows\<close>); over
  them the Pearson coefficient is the sum of the products of the deviations from the means,
  divided by the square root of the product of the two sums of squared deviations. The
  cell is \<open>NaN\<close> when fewer than \<open>min_periods\<close> rows are kept or when the divisor is 0.
\<close>

fun complete_rows :: "series \<Rightarrow> series \<Rightarrow> (real \<times> real) list" where
  "complete_rows (Fin a # xs) (Fin b # ys) = (a, b) # complete_rows xs ys"
| "complete_rows (_ # xs) (_ # ys) = complete_rows xs ys"
| "complete_rows _ _ = []"

definition mean :: "real list \<Rightarrow> real" where
  "mean zs = sum_list zs / real (length zs)"

definition ssqdm :: "real list \<Rightarrow> real" where
  "ssqdm zs = (\<Sum>z\<leftarrow>zs. (z - mean zs) * (z - mean zs))"

definition covxy :: "(real \<times> real) list \<Rightarrow> real" where
  "covxy ps = (\<Sum>p\<leftarrow>ps. (fst p - mean (map fst ps)) * (snd p - mean (map snd ps)))"

definition nancorr :: "series \<Rightarrow> series \<Rightarrow> fval" where
  "nancorr xs ys =
     (let ps = complete_rows xs ys; nobs = length ps in
      if nobs < 1 then NaN
      else
        (let divisor = sqrt (ssqdm (map fst ps) * ssqdm (map snd ps)) in
         if divisor \<noteq> 0 then Fin (covxy ps / divisor) else NaN))"

text \<open>The result of \<open>corr\<close>: a table with the column labels on both axes.\<close>

record matrix =
  labels :: "string list"
  cells :: "fval list list"

definition corr :: "frame \<Rightarrow> matrix" where
  "corr data =
     \<lparr>labels = map fst data,
      cells = map (\<lambda>(_, xs). map (\<lambda>(_, ys). nancorr xs ys) data) data\<rparr>"



section \<open>The heatmap: \<open>create_correlation_heatmap\<close>\<close>

datatype error = KeyError string | ValueError string | ProviderError string

text \<open>The arguments of the call of \<open>sns.heatmap\<close> and of the figure around it.\<close>

record heatmap_call =
  hm_data :: matrix
  hm_annot :: bool
  hm_cmap :: string
  hm_center :: real
  hm_vmin :: real
  hm_vmax :: real
  hm_square :: bool
  hm_linewidths :: real
  hm_title :: string
  hm_figsize :: "nat \<times> nat"

text \<open>
  Lines 55 to 72. The function has no \<open>raise\<close> and no check of its argument, and the
  plotting calls are recorded by the arguments they receive; the result type leaves room
  for an exception so that its absence can be stated.
\<close>

definition create_correlation_heatmap :: "frame \<Rightarrow> error + (heatmap_call \<times> matrix)" where
  "create_correlation_heatmap data =
     (let correlation_matrix = corr (pct_change_frame data) in
      Inr (\<lparr>hm_data = correlation_matrix,
            hm_annot = True,
            hm_cmap = ''Blues'',
            hm_center = 0,
            hm_vmin = - 1,
            hm_vmax = 1,
            hm_square = True,
            hm_linewidths = 1 / 2,
            hm_title = ''Stock Price Correlation Heatmap'',
            hm_figsize = (12, 10)\<rparr>,
           correlation_matrix))"

text \<open>
  The colormaps that matplotlib's colormap reference lists as diverging, with the two that
  seaborn adds; a name with the suffix \<open>_r\<close> is the same map reversed. \<open>Blues\<close> is listed
  there as sequential.
\<close>

definition diverging_cmaps :: "string list" where
  "diverging_cmaps =
     [''PiYG'', ''PRGn'', ''BrBG'', ''PuOr'', ''RdGy'', ''RdBu'', ''RdYlBu'', ''RdYlGn'',
      ''Spectral'', ''coolwarm'', ''bwr'', ''seismic'', ''berlin'', ''managua'', ''vanimo'',
      ''vlag'', ''icefire'']"

definition is_diverging :: "string \<Rightarrow> bool" where
  "is_diverging name =
     (name \<in> set diverging_cmaps \<or> name \<in> set (map (\<lambda>n. n @ ''_r'') diverging_cmaps))"

section \<open>The price charts: \<open>create_candlestick_charts\<close>\<close>

record scatter_call =
  sc_x :: "nat list"
  sc_y :: series
  sc_color :: string
  sc_marker :: string
  sc_alpha :: real
  sc_label :: string

record panel =
  pn_line_x :: "nat list"
  pn_line_y :: series
  pn_line_label :: string
  pn_title :: string
  pn_xlabel :: string
  pn_ylabel :: string
  pn_positive :: scatter_call
  pn_negative :: scatter_call

text \<open>Indexing by a boolean mask: the entries at the positions where the mask is true.\<close>

definition mask_select :: "'a list \<Rightarrow> bool list \<Rightarrow> 'a list" where
  "mask_select xs flags = map fst (filter snd (zip xs flags))"

text \<open>The body of the \<open>for\<close> loop (lines 90 to 122) once \<open>data[company]\<close> has been found.\<close>

definition draw_panel :: "string \<Rightarrow> series \<Rightarrow> panel" where
  "draw_panel company stock_data =
     (let index = [0..<length stock_data];
          stock_data_pct = pct_change stock_data;
          positive_changes = map (\<lambda>r. fless (Fin 0) r) stock_data_pct;
          negative_changes = map (\<lambda>r. fless r (Fin 0)) stock_data_pct
      in \<lparr>pn_line_x = index,
          pn_line_y = stock_data,
          pn_line_label = ''Price'',
          pn_title = company @ '' Stock Price'',
          pn_xlabel = ''Date'',
          pn_ylabel = ''Price ($)'',
          pn_positive =
            \<lparr>sc_x = mask_select index positive_changes,
             sc_y = mask_select stock_data positive_changes,
             sc_color = ''green'', sc_marker = ''^'', sc_alpha = 7 / 10,
             sc_label = ''Positive Change''\<rparr>,
          pn_negative =
            \<lparr>sc_x = mask_select index negative_changes,
             sc_y = mask_select stock_data negative_changes,
             sc_color = ''red'', sc_marker = ''v'', sc_alpha = 7 / 10,
             sc_label = ''Negative Change''\<rparr>\<rparr>)"

text \<open>
  The loop over the companies. \<open>data[company]\<close> raises \<open>KeyError\<close> when no column has that
  label, and the loop stops there.
\<close>

fun draw_panels :: "frame \<Rightarrow> string list \<Rightarrow> error + panel list" where
  "draw_panels data [] = Inr []"
| "draw_panels data (company # rest) =
     (case map_of data company of
        None \<Rightarrow> Inl (KeyError company)
      | Some stock_data \<Rightarrow>
          (case draw_panels data rest of
             Inl e \<Rightarrow> Inl e
           | Inr ps \<Rightarrow> Inr (draw_panel company stock_data # ps)))"

text \<open>\<open>plt.subplots(0, 1)\<close> raises \<open>ValueError\<close>.\<close>

definition create_candlestick_charts :: "frame \<Rightarrow> string list \<Rightarrow> error + panel list" where
  "create_candlestick_charts data companies =
     (if companies = [] then Inl (ValueError ''Number of rows must be a positive integer, not 0'')
      else draw_panels data companies)"

section \<open>Parsing and validating the input line\<close>

text \<open>\<open>str.split(',')\<close>: every comma separates, empty fields are kept, the result is never empty.\<close>

fun split_comma :: "string \<Rightarrow> string list" where
  "split_comma [] = [[]]"
| "split_comma (c # cs) =
     (if c = CHR '','' then [] # split_comma cs
      else (case split_comma cs of
              [] \<Rightarrow> [[c]]
            | w # ws \<Rightarrow> (c # w) # ws))"

text \<open>
  \<open>str.isspace\<close> on the ASCII range: the code points 9 to 13 and 28 to 32.
  \<open>str.strip()\<close> removes such characters at both ends.
\<close>

definition isspace :: "char \<Rightarrow> bool" where
  "isspace c = (let n = (of_char c :: nat) in (9 \<le> n \<and> n \<le> 13) \<or> (28 \<le> n \<and> n \<le> 32))"

definition strip :: "string \<Rightarrow> string" where
  "strip s = rev (dropWhile isspace (rev (dropWhile isspace s)))"

text \<open>
  What the program writes and which collaborators it calls, in order. Constant messages are
  \<open>Print\<close> lines; formatted ones carry the formatted value. \<open>Download\<close> is the call of the
  market-data provider, \<open>ShowHeatmap\<close> and \<open>ShowCharts\<close> are the two calls of \<open>plt.show()\<close>.
\<close>

datatype out_event =
    Print string
  | PrintInvalid "string list"
  | Download "string list"
  | ShowHeatmap heatmap_call
  | PrintMatrix matrix
  | ShowCharts "panel list"
  | PrintError error

datatype verdict = Proceed "string list" | Retry "out_event list"

text \<open>
  One pass of the body of the \<open>while True\<close> loop of \<open>main\<close> on a line that \<open>input()\<close>
  returned: \<open>break\<close> is \<open>Proceed\<close>, each \<open>continue\<close> is \<open>Retry\<close> with what was printed.
\<close>

definition validate :: "string \<Rightarrow> verdict" where
  "validate user_input =
     (let companies = map strip (split_comma user_input) in
      if length companies < 2 then Retry [Print ''Please enter at least 2 companies.'']
      else
        (let invalid_companies = filter (\<lambda>c. c \<notin> set available_companies) companies in
         if invalid_companies \<noteq> []
         then Retry [PrintInvalid invalid_companies,
                     Print ''Please choose from the available list.'']
         else Proceed companies))"

definition prompt :: out_event where
  "prompt = Print (CHR 0x0A # ''Enter at least 2 company names (comma-separated):'')"

text \<open>
  The loop over the lines of standard input. When the input is exhausted \<open>input()\<close> raises
  \<open>EOFError\<close>, the handler of the loop prints it and the loop starts again, for ever: the
  loop does not return, which is \<open>None\<close>.
\<close>

fun input_loop :: "string list \<Rightarrow> (out_event list \<times> string list) option" where
  "input_loop [] = None"
| "input_loop (l # ls) =
     (case validate l of
        Proceed companies \<Rightarrow> Some ([prompt], companies)
      | Retry out \<Rightarrow>
          (case input_loop ls of
             None \<Rightarrow> None
           | Some (evs, companies) \<Rightarrow> Some (prompt # out @ evs, companies)))"

fun is_download :: "out_event \<Rightarrow> bool" where
  "is_download (Download _) = True"
| "is_download _ = False"

section \<open>The driver: \<open>fetch_stock_data\<close> and \<open>main\<close>\<close>

text \<open>
  The market-data provider is a parameter: \<open>download symbols\<close> is the table of adjusted
  closing prices that \<open>yf.download(symbols, ...)['Adj Close']\<close> gives, or the exception it
  raises.
\<close>

definition fetch_stock_data :: "(string list \<Rightarrow> error + frame) \<Rightarrow> string list \<Rightarrow> error + frame" where
  "fetch_stock_data download companies = download (symbols companies)"

definition banner :: "out_event list" where
  "banner =
     [Print ''Stock Correlation and Visualization Tool'',
      Print (CHR 0x0A # ''Available Companies:'')]
     @ map (\<lambda>company. Print (''- '' @ company)) available_companies"

text \<open>Lines 160 to 177: the \<open>try\<close> block and its handler.\<close>

definition process :: "(string list \<Rightarrow> error + frame) \<Rightarrow> string list \<Rightarrow> out_event list" where
  "process download companies =
     Download (symbols companies) #
     (case fetch_stock_data download companies of
        Inl e \<Rightarrow> [PrintError e]
      | Inr stock_data \<Rightarrow>
          (case create_correlation_heatmap stock_data of
             Inl e \<Rightarrow> [PrintError e]
           | Inr (call, correlation_matrix) \<Rightarrow>
               [ShowHeatmap call,
                Print (CHR 0x0A # ''Correlation Matrix:''),
                PrintMatrix correlation_matrix]
               @ (case create_candlestick_charts stock_data companies of
                    Inl e \<Rightarrow> [PrintError e]
                  | Inr panels \<Rightarrow> [ShowCharts panels])))"

definition main :: "(string list \<Rightarrow> error + frame) \<Rightarrow> string list \<Rightarrow> out_event list option" where
  "main download stdin =
     (case input_loop stdin of
        None \<Rightarrow> None
      | Some (evs, companies) \<Rightarrow> Some (banner @ evs @ process download companies))"

text \<open>The events that show a result: a rendered figure or the printed matrix.\<close>

fun is_visualization :: "out_event \<Rightarrow> bool" where
  "is_visualization (ShowHeatmap _) = True"
| "is_visualization (PrintMatrix _) = True"
| "is_visualization (ShowCharts _) = True"
| "is_visualization _ = False"

section \<open>The resolver\<close>

lemma dom_company_symbols: "map fst company_symbols = available_companies"
  by (simp add: company_symbols_def available_companies_def)

lemma resolve_unknown: "s \<notin> set available_companies \<Longrightarrow> resolve s = s"
proof -
  assume "s \<notin> set available_companies"
  then have "s \<notin> fst ` set company_symbols"
    using dom_company_symbols by (metis set_map)
  then have "map_of company_symbols s = None"
    by (simp add: map_of_eq_None_iff)
  then show ?thesis by (simp add: resolve_def)
qed

text \<open>
  C5. The resolver sends each of the 15 catalogue names to its ticker (Apple to AAPL), and
  every string that is not a catalogue name to itself (FAKE to FAKE); being a total
  function, it has a result for every string.
\<close>

theorem resolve_catalog_or_identity:
  "map resolve available_companies =
     [''AAPL'', ''MSFT'', ''AMZN'', ''GOOGL'', ''META'', ''TSLA'', ''NVDA'', ''JPM'',
      ''WMT'', ''XOM'', ''JNJ'', ''V'', ''MA'', ''INTC'', ''KO'']
   \<and> resolve ''Apple'' = ''AAPL''
   \<and> (s \<notin> set (map fst company_symbols) \<longrightarrow> resolve s = s)"
proof -
  have a: "map resolve available_companies =
     [''AAPL'', ''MSFT'', ''AMZN'', ''GOOGL'', ''META'', ''TSLA'', ''NVDA'', ''JPM'',
      ''WMT'', ''XOM'', ''JNJ'', ''V'', ''MA'', ''INTC'', ''KO'']"
    by (simp add: available_companies_def resolve_def company_symbols_def)
  have b: "resolve ''Apple'' = ''AAPL''"
    by (simp add: resolve_def company_symbols_def)
  have c: "s \<notin> set (map fst company_symbols) \<longrightarrow> resolve s = s"
    using resolve_unknown by (simp only: dom_company_symbols) blast
  from a b c show ?thesis by blast
qed

theorem resolve_catalog_or_identity_witness:
  "''FAKE'' \<notin> set (map fst company_symbols) \<and> resolve ''FAKE'' = ''FAKE''"
proof -
  have h: "''FAKE'' \<notin> set (map fst company_symbols)"
    by (simp add: company_symbols_def)
  with resolve_catalog_or_identity [of "''FAKE''"] show ?thesis by blast
qed
section \<open>Returns\<close>









section \<open>Properties of the correlation matrix\<close>










lemma cells_corr:
  "i < length data \<Longrightarrow> j < length data \<Longrightarrow>
   cells (corr data) ! i ! j = nancorr (snd (data ! i)) (snd (data ! j))"
  by (simp add: corr_def case_prod_beta)

lemma returns_column: "i < length data \<Longrightarrow> snd (pct_change_frame data ! i) = pct_change (snd (data ! i))"
  by (simp add: pct_change_frame_def case_prod_beta)

lemma length_pct_change_frame: "length (pct_change_frame data) = length data"
  by (simp add: pct_change_frame_def)

lemma engine_cell:
  "i < length data \<Longrightarrow> j < length data \<Longrightarrow>
   cells (corr (pct_change_frame data)) ! i ! j
     = nancorr (pct_change (snd (data ! i))) (pct_change (snd (data ! j)))"
  by (simp add: cells_corr length_pct_change_frame returns_column)




lemma complete_rows_swap: "complete_rows ys xs = map prod.swap (complete_rows xs ys)"
  by (induction xs ys rule: complete_rows.induct) simp_all

lemma covxy_swap: "covxy (map prod.swap ps) = covxy ps"
  by (simp add: covxy_def comp_def mult.commute)

lemma nancorr_sym: "nancorr xs ys = nancorr ys xs"
proof -
  have "complete_rows ys xs = map prod.swap (complete_rows xs ys)"
    by (rule complete_rows_swap)
  then show ?thesis
    by (simp add: nancorr_def Let_def covxy_swap comp_def mult.commute)
qed





lemma complete_rows_members:
  "(a, b) \<in> set (complete_rows xs ys) \<Longrightarrow> Fin a \<in> set xs \<and> Fin b \<in> set ys"
  by (induction xs ys rule: complete_rows.induct) auto

lemma ssqdm_constant:
  assumes "\<forall>z \<in> set zs. z = c"
  shows "ssqdm zs = 0"
proof (cases "zs = []")
  case True
  then show ?thesis by (simp add: ssqdm_def)
next
  case False
  have rep: "zs = replicate (length zs) c"
    using assms by (simp add: replicate_length_same)
  have "sum_list zs = real (length zs) * c"
    by (subst rep) (simp add: sum_list_replicate)
  then have m: "mean zs = c"
    using False by (simp add: mean_def)
  have "\<forall>z \<in> set zs. (z - mean zs) * (z - mean zs) = 0"
    using assms m by simp
  then have "map (\<lambda>z. (z - mean zs) * (z - mean zs)) zs = map (\<lambda>z. 0) zs"
    by (simp add: map_eq_conv)
  then have "ssqdm zs = sum_list (map (\<lambda>z. 0 :: real) zs)"
    by (simp only: ssqdm_def)
  then show ?thesis by simp
qed

lemma nancorr_zero_variance:
  assumes "\<forall>a. Fin a \<in> set xs \<longrightarrow> a = c"
  shows "nancorr xs ys = NaN"
proof -
  let ?ps = "complete_rows xs ys"
  have "\<forall>z \<in> set (map fst ?ps). z = c"
    using assms complete_rows_members by fastforce
  then have "ssqdm (map fst ?ps) = 0" by (rule ssqdm_constant)
  then show ?thesis by (simp add: nancorr_def Let_def)
qed

lemma ffill_from_constant:
  "ffill_from s (replicate n v) = replicate n (if v = NaN then s else v)"
  by (induction n arbitrary: s) (simp_all add: Let_def)

lemma pct_change_constant:
  "pct_change (replicate n v) = (case n of 0 \<Rightarrow> [] | Suc m \<Rightarrow> NaN # replicate m (fsub (fdiv v v) (Fin 1)))"
proof -
  have f: "ffill (replicate n v) = replicate n v"
    by (simp add: ffill_def ffill_from_constant)
  show ?thesis
  proof (cases n)
    case 0
    then show ?thesis by (simp add: pct_change_def ffill_def)
  next
    case (Suc m)
    have "zip (replicate m v) (v # replicate m v) = replicate m (v, v)"
      using zip_replicate [of m v "Suc m" v] by simp
    then show ?thesis
      using f by (simp add: pct_change_def Let_def Suc del: zip_Cons_Cons)
  qed
qed

lemma returns_of_constant_prices:
  assumes "\<forall>x \<in> set prices. x = v"
  shows "\<exists>c. \<forall>a. Fin a \<in> set (pct_change prices) \<longrightarrow> a = c"
proof -
  have rep: "prices = replicate (length prices) v"
    using assms by (simp add: replicate_length_same)
  let ?w = "fsub (fdiv v v) (Fin 1)"
  have mem: "\<forall>r \<in> set (pct_change prices). r = NaN \<or> r = ?w"
    by (subst rep, simp only: pct_change_constant) (auto split: nat.splits)
  show ?thesis
  proof (cases ?w)
    case (Fin c)
    with mem have "\<forall>a. Fin a \<in> set (pct_change prices) \<longrightarrow> a = c" by auto
    then show ?thesis ..
  next
    case PInf
    with mem have "\<forall>a. Fin a \<in> set (pct_change prices) \<longrightarrow> a = 0" by auto
    then show ?thesis ..
  next
    case NInf
    with mem have "\<forall>a. Fin a \<in> set (pct_change prices) \<longrightarrow> a = 0" by auto
    then show ?thesis ..
  next
    case NaN
    with mem have "\<forall>a. Fin a \<in> set (pct_change prices) \<longrightarrow> a = 0" by auto
    then show ?thesis ..
  qed
qed

lemma nancorr_constant_prices:
  assumes "\<forall>x \<in> set prices. x = v"
  shows "nancorr (pct_change prices) ys = NaN" and "nancorr ys (pct_change prices) = NaN"
proof -
  from returns_of_constant_prices [OF assms]
  obtain c where "\<forall>a. Fin a \<in> set (pct_change prices) \<longrightarrow> a = c" ..
  then show "nancorr (pct_change prices) ys = NaN" by (rule nancorr_zero_variance)
  then show "nancorr ys (pct_change prices) = NaN" by (simp add: nancorr_sym [of ys])
qed

text \<open>
  C4. When a price column is constant, the correlation engine raises nothing and every
  cell of the matrix in the row or in the column of that company is missing (\<open>NaN\<close>):
  it is neither the number 0 nor the number 1.
\<close>

theorem constant_price_column_gives_missing_correlation:
  assumes "k < length data" and "j < length data"
    and "\<forall>x \<in> set (snd (data ! k)). x = v"
  shows "\<not> isl (create_correlation_heatmap data)
    \<and> cells (snd (projr (create_correlation_heatmap data))) ! k ! j = NaN
    \<and> cells (snd (projr (create_correlation_heatmap data))) ! j ! k = NaN
    \<and> cells (snd (projr (create_correlation_heatmap data))) ! k ! j \<noteq> Fin 0
    \<and> cells (snd (projr (create_correlation_heatmap data))) ! k ! j \<noteq> Fin 1
    \<and> cells (snd (projr (create_correlation_heatmap data))) ! j ! k \<noteq> Fin 0
    \<and> cells (snd (projr (create_correlation_heatmap data))) ! j ! k \<noteq> Fin 1"
proof -
  have r: "create_correlation_heatmap data
      = Inr (fst (projr (create_correlation_heatmap data)), corr (pct_change_frame data))"
    by (simp add: create_correlation_heatmap_def Let_def)
  then have m: "snd (projr (create_correlation_heatmap data)) = corr (pct_change_frame data)"
    by (metis snd_conv sum.sel(2))
  have ok: "\<not> isl (create_correlation_heatmap data)"
    by (subst r) simp
  have kj: "cells (corr (pct_change_frame data)) ! k ! j = NaN"
    using engine_cell [OF assms(1,2)] nancorr_constant_prices(1) [OF assms(3)] by simp
  have jk: "cells (corr (pct_change_frame data)) ! j ! k = NaN"
    using engine_cell [OF assms(2,1)] nancorr_constant_prices(2) [OF assms(3)] by simp
  from ok kj jk show ?thesis by (simp add: m)
qed

theorem constant_price_column_gives_missing_correlation_witness:
  "\<not> isl (create_correlation_heatmap
            [(''AAPL'', [Fin 100, Fin 110, Fin 99]), (''KO'', [Fin 60, Fin 60, Fin 60])])
   \<and> cells (snd (projr (create_correlation_heatmap
            [(''AAPL'', [Fin 100, Fin 110, Fin 99]), (''KO'', [Fin 60, Fin 60, Fin 60])]))) ! 1 ! 0 = NaN
   \<and> cells (snd (projr (create_correlation_heatmap
            [(''AAPL'', [Fin 100, Fin 110, Fin 99]), (''KO'', [Fin 60, Fin 60, Fin 60])]))) ! 1 ! 1 = NaN"
proof -
  let ?data = "[(''AAPL'', [Fin 100, Fin 110, Fin 99]), (''KO'', [Fin 60, Fin 60, Fin 60])]"
  have k: "(1::nat) < length ?data" and j: "(0::nat) < length ?data" by simp_all
  have const: "\<forall>x \<in> set (snd (?data ! 1)). x = Fin 60" by simp
  from constant_price_column_gives_missing_correlation [OF k j const]
       constant_price_column_gives_missing_correlation [OF k k const]
  show ?thesis by blast
qed






section \<open>Markers of the price charts\<close>




lemma draw_panels_returns:
  "set companies \<subseteq> fst ` set data \<Longrightarrow> \<exists>panels. draw_panels data companies = Inr panels"
proof (induction companies)
  case Nil
  then show ?case by simp
next
  case (Cons company rest)
  then obtain ps where ps: "draw_panels data rest = Inr ps" by auto
  from Cons.prems have "company \<in> fst ` set data" by simp
  then obtain stock_data where "map_of data company = Some stock_data"
    by (metis map_of_eq_None_iff not_Some_eq)
  with ps show ?case by simp
qed




section \<open>Failure of the fetch\<close>

lemma validate_output_quiet:
  "validate l = Retry out \<Longrightarrow> \<forall>e \<in> set out. \<not> is_visualization e \<and> \<not> is_download e"
  by (auto simp: validate_def Let_def split: if_splits)

lemma prompt_quiet: "\<not> is_visualization prompt \<and> \<not> is_download prompt"
  by (simp add: prompt_def)

lemma input_loop_quiet:
  "input_loop ls = Some (evs, companies) \<Longrightarrow>
   \<forall>e \<in> set evs. \<not> is_visualization e \<and> \<not> is_download e"
proof (induction ls arbitrary: evs)
  case Nil
  then show ?case by simp
next
  case (Cons l ls)
  show ?case
  proof (cases "validate l")
    case (Proceed cs)
    with Cons.prems show ?thesis using prompt_quiet by auto
  next
    case (Retry out)
    with Cons.prems obtain evs' where
      rest: "input_loop ls = Some (evs', companies)" and evs: "evs = prompt # out @ evs'"
      by (auto split: option.splits)
    from Cons.IH [OF rest] validate_output_quiet [OF Retry] prompt_quiet evs
    show ?thesis by auto
  qed
qed

lemma banner_quiet: "\<forall>e \<in> set banner. \<not> is_visualization e \<and> \<not> is_download e"
  by (auto simp: banner_def)

text \<open>
  C7. When the selection has been read and the data fetcher raises, the run ends after the
  report of the error: what it has written is the banner, the dialogue of the input loop,
  the call of the provider and the error, with no heatmap, no printed matrix and no price
  chart.
\<close>

theorem fetch_failure_ends_run_without_visualization:
  assumes "input_loop stdin = Some (evs, companies)"
    and "fetch_stock_data download companies = Inl e"
  shows "main download stdin
           = Some (banner @ evs @ [Download (symbols companies), PrintError e])
    \<and> (\<forall>ev \<in> set (banner @ evs @ [Download (symbols companies), PrintError e]).
          \<not> is_visualization ev)"
proof -
  have run: "main download stdin
           = Some (banner @ evs @ [Download (symbols companies), PrintError e])"
    using assms by (simp add: main_def process_def)
  have "\<forall>ev \<in> set (banner @ evs @ [Download (symbols companies), PrintError e]).
          \<not> is_visualization ev"
    using banner_quiet input_loop_quiet [OF assms(1)] by auto
  with run show ?thesis by simp
qed

theorem fetch_failure_ends_run_without_visualization_witness:
  "main (\<lambda>_. Inl (ProviderError ''no connection'')) [''Apple, Microsoft'']
     = Some (banner @ [prompt] @
             [Download [''AAPL'', ''MSFT''], PrintError (ProviderError ''no connection'')])"
proof -
  have v: "validate ''Apple, Microsoft'' = Proceed [''Apple'', ''Microsoft'']"
    by (simp add: validate_def strip_def isspace_def available_companies_def)
  have l: "input_loop [''Apple, Microsoft''] = Some ([prompt], [''Apple'', ''Microsoft''])"
    by (simp add: v)
  have f: "fetch_stock_data (\<lambda>_. Inl (ProviderError ''no connection'')) [''Apple'', ''Microsoft'']
             = Inl (ProviderError ''no connection'')"
    by (simp add: fetch_stock_data_def)
  have s: "symbols [''Apple'', ''Microsoft''] = [''AAPL'', ''MSFT'']"
    by (simp add: symbols_def resolve_def company_symbols_def)
  from fetch_failure_ends_run_without_visualization [OF l f] show ?thesis
    by (simp add: s)
qed

subsection \<open>The price charts in a run of \<open>main\<close>\<close>

lemma validate_proceed_valid:
  "validate l = Proceed cs \<Longrightarrow> 2 \<le> length cs \<and> set cs \<subseteq> set available_companies"
  by (auto simp: validate_def Let_def filter_empty_conv split: if_splits)

lemma input_loop_valid:
  "input_loop ls = Some (evs, cs) \<Longrightarrow> 2 \<le> length cs \<and> set cs \<subseteq> set available_companies"
proof (induction ls arbitrary: evs)
  case Nil
  then show ?case by simp
next
  case (Cons l ls)
  show ?case
  proof (cases "validate l")
    case (Proceed cs')
    with Cons.prems have "cs' = cs" by simp
    with Proceed validate_proceed_valid show ?thesis by blast
  next
    case (Retry out)
    with Cons.prems obtain evs' where "input_loop ls = Some (evs', cs)"
      by (auto split: option.splits)
    then show ?thesis by (rule Cons.IH)
  qed
qed

lemma names_are_not_tickers:
  "set available_companies \<inter> set (map snd company_symbols) = {}"
  by (simp add: available_companies_def company_symbols_def)

text \<open>
  In \<open>main\<close> the charts are asked for by display name (\<open>companies\<close>), while the columns
  of the fetched table are ticker symbols. No catalogue name is a ticker, so the lookup
  \<open>data[company]\<close> of the first company raises \<open>KeyError\<close>: the run shows the heatmap and
  prints the matrix, then reports the error, and the price charts are not shown.
\<close>

lemma charts_raise_on_display_names:
  assumes "input_loop stdin = Some (evs, companies)"
    and "fetch_stock_data download companies = Inr data"
    and "set (map fst data) \<subseteq> set (map snd company_symbols)"
  shows "create_candlestick_charts data companies = Inl (KeyError (hd companies))"
proof -
  from input_loop_valid [OF assms(1)]
  have len: "2 \<le> length companies" and valid: "set companies \<subseteq> set available_companies"
    by simp_all
  from len obtain c rest where cs: "companies = c # rest"
    by (cases companies) auto
  with valid have "c \<in> set available_companies" by simp
  with names_are_not_tickers have "c \<notin> set (map snd company_symbols)" by blast
  with assms(3) have "c \<notin> set (map fst data)" by blast
  then have "c \<notin> fst ` set data" by simp
  then have "map_of data c = None" by (simp add: map_of_eq_None_iff)
  then show ?thesis by (simp add: cs create_candlestick_charts_def)
qed

lemma main_never_shows_charts_for_ticker_columns:
  assumes "input_loop stdin = Some (evs, companies)"
    and "fetch_stock_data download companies = Inr data"
    and "set (map fst data) \<subseteq> set (map snd company_symbols)"
  shows "main download stdin =
     Some (banner @ evs @
           [Download (symbols companies),
            ShowHeatmap (fst (projr (create_correlation_heatmap data))),
            Print (CHR 0x0A # ''Correlation Matrix:''),
            PrintMatrix (corr (pct_change_frame data)),
            PrintError (KeyError (hd companies))])"
  using assms charts_raise_on_display_names [OF assms]
  by (simp add: main_def process_def create_correlation_heatmap_def Let_def)

section \<open>The correlation engine and the heatmap call\<close>

text \<open>
  A price table with a single column is not reported as an error: the result is the
  matrix with one row and one column.
\<close>

theorem one_column_table_is_not_an_error:
  "\<not> isl (create_correlation_heatmap [(''AAPL'', [Fin 100, Fin 110, Fin 99])])
   \<and> labels (snd (projr (create_correlation_heatmap [(''AAPL'', [Fin 100, Fin 110, Fin 99])])))
       = [''AAPL'']
   \<and> length (cells (snd (projr (create_correlation_heatmap [(''AAPL'', [Fin 100, Fin 110, Fin 99])]))))
       = 1"
  by (simp add: create_correlation_heatmap_def Let_def corr_def pct_change_frame_def)

text \<open>
  C8, as the code has it. The correlation engine has no failure path at all: for every
  price table, whatever its number of columns, it returns the correlation matrix of the
  returns, labelled by the columns of the table and with one row per column.
\<close>

theorem correlation_engine_never_fails:
  "\<not> isl (create_correlation_heatmap data)
   \<and> snd (projr (create_correlation_heatmap data)) = corr (pct_change_frame data)
   \<and> labels (corr (pct_change_frame data)) = map fst data
   \<and> length (cells (corr (pct_change_frame data))) = length data"
  by (simp add: create_correlation_heatmap_def Let_def corr_def pct_change_frame_def
      case_prod_beta comp_def)

text \<open>The colormap that the heatmap is drawn with is not a diverging one.\<close>

theorem heatmap_scale_is_not_diverging:
  "\<not> is_diverging
       (hm_cmap (fst (projr (create_correlation_heatmap
          [(''AAPL'', [Fin 100, Fin 110, Fin 99]), (''MSFT'', [Fin 50, Fin 52, Fin 51])]))))"
  by (simp add: create_correlation_heatmap_def Let_def is_diverging_def diverging_cmaps_def)

text \<open>
  C9, as the code has it. For every price table the heatmap is drawn from the correlation
  matrix with the sequential colormap \<open>Blues\<close> (not a diverging one), \<open>center=0\<close>, the
  fixed colour bounds -1 and 1, every cell annotated, square cells, grid lines of width 0.5
  and the title "Stock Price Correlation Heatmap".
\<close>

theorem heatmap_call_arguments:
  "hm_data (fst (projr (create_correlation_heatmap data))) = corr (pct_change_frame data)
   \<and> hm_cmap (fst (projr (create_correlation_heatmap data))) = ''Blues''
   \<and> \<not> is_diverging (hm_cmap (fst (projr (create_correlation_heatmap data))))
   \<and> hm_center (fst (projr (create_correlation_heatmap data))) = 0
   \<and> hm_vmin (fst (projr (create_correlation_heatmap data))) = - 1
   \<and> hm_vmax (fst (projr (create_correlation_heatmap data))) = 1
   \<and> hm_annot (fst (projr (create_correlation_heatmap data)))
   \<and> hm_square (fst (projr (create_correlation_heatmap data)))
   \<and> hm_linewidths (fst (projr (create_correlation_heatmap data))) = 1 / 2
   \<and> hm_title (fst (projr (create_correlation_heatmap data))) = ''Stock Price Correlation Heatmap''"
  by (simp add: create_correlation_heatmap_def Let_def is_diverging_def diverging_cmaps_def)

section \<open>Validation\<close>



end
